theory Spec2Isabelle
  imports Main
begin

section \<open>ip-watcher: the fetch-with-retry routine and the change-detection step\<close>

text \<open>
  A shallow embedding of \<^verbatim>\<open>main.go\<close>: \<^verbatim>\<open>fetchExternalIP\<close> (lines 133-178) and
  \<^verbatim>\<open>checkIP\<close> (lines 104-124), together with the parts of Go's standard library
  they call: \<^verbatim>\<open>fmt\<close>'s \<^verbatim>\<open>%d\<close> verb, \<^verbatim>\<open>encoding/json\<close>'s \<^verbatim>\<open>Unmarshal\<close> into the struct
  \<^verbatim>\<open>IPifyResponse\<close>, and \<^verbatim>\<open>sync.Mutex\<close>. Go strings and byte slices are
  \<^typ>\<open>string\<close> (lists of 8-bit characters). Go's \<^verbatim>\<open>int\<close> is \<^typ>\<open>int\<close>: the only
  arithmetic on it is \<^verbatim>\<open>attempt+1\<close> under the guard \<^verbatim>\<open>attempt < maxAttempts\<close>, which
  cannot overflow.
\<close>

subsection \<open>\<^verbatim>\<open>fmt\<close>: the verb \<^verbatim>\<open>%d\<close>\<close>

definition digit_char :: "nat \<Rightarrow> char" where
  "digit_char d = ''0123456789'' ! d"

function decimal :: "nat \<Rightarrow> string" where
  "decimal n = (if n < 10 then [digit_char n] else decimal (n div 10) @ [digit_char (n mod 10)])"
  by pat_completeness auto
termination
  by (relation "measure id") auto

definition fmt_d :: "int \<Rightarrow> string" where
  "fmt_d i = (if i < 0 then CHR ''-'' # decimal (nat (- i)) else decimal (nat i))"

subsection \<open>\<^verbatim>\<open>encoding/json\<close>: the scanner\<close>

text \<open>
  \<^verbatim>\<open>json.Unmarshal\<close> first runs \<^verbatim>\<open>checkValid\<close>, a state machine over the bytes of the
  input with a stack \<^verbatim>\<open>parseState\<close> of open containers, and decodes only input that
  the machine accepted. The model follows \<^verbatim>\<open>scanner.go\<close> state function by state
  function; \<^verbatim>\<open>step\<close> holds the name of the current state function. Instead of
  scanning a second time to decode, the model's machine collects the value it has read:
  each stack entry carries the members or elements read so far, and \<open>decoded\<close> is the
  completed top-level value.
\<close>

datatype json =
    JNull
  | JBool bool
  | JNumber
  | JString string
  | JArray "json list"
  | JObject "(string \<times> json) list"

datatype step_fn =
    StateBeginValueOrEmpty | StateBeginValue | StateBeginStringOrEmpty | StateBeginString
  | StateEndValue | StateEndTop
  | StateInString | StateInStringEsc | StateInStringEscU | StateInStringEscU1
  | StateInStringEscU12 | StateInStringEscU123
  | StateNeg | State1 | State0 | StateDot | StateDot0 | StateE | StateESign | StateE0
  | StateT | StateTr | StateTru | StateF | StateFa | StateFal | StateFals
  | StateN | StateNu | StateNul
  | StateError

datatype frame =
    parseObjectKey "(string \<times> json) list" string
  | parseObjectValue "(string \<times> json) list" string
  | parseArrayValue "json list"

record scanner =
  step :: step_fn
  parseState :: "frame list"
  endTop :: bool
  lit :: string
  decoded :: "json option"

definition maxNestingDepth :: nat where
  "maxNestingDepth = 10000"

definition isSpace :: "char \<Rightarrow> bool" where
  "isSpace c = (c = CHR '' '' \<or> c = CHR 0x09 \<or> c = CHR 0x0D \<or> c = CHR 0x0A)"

definition isDigit :: "char \<Rightarrow> bool" where
  "isDigit c = (48 \<le> (of_char c :: nat) \<and> (of_char c :: nat) \<le> 57)"

definition isDigit19 :: "char \<Rightarrow> bool" where
  "isDigit19 c = (49 \<le> (of_char c :: nat) \<and> (of_char c :: nat) \<le> 57)"

definition isHex :: "char \<Rightarrow> bool" where
  "isHex c = (isDigit c
     \<or> 97 \<le> (of_char c :: nat) \<and> (of_char c :: nat) \<le> 102
     \<or> 65 \<le> (of_char c :: nat) \<and> (of_char c :: nat) \<le> 70)"

definition scan_error :: "scanner \<Rightarrow> scanner" where
  "scan_error s = s\<lparr>step := StateError\<rparr>"

definition reset :: scanner where
  "reset = \<lparr>step = StateBeginValue, parseState = [], endTop = False, lit = [], decoded = None\<rparr>"

text \<open>
  \<open>storeValue v s\<close>: a value has been read completely; it becomes the top-level value,
  the next element of the innermost array, or the value of the pending key of the
  innermost object. The head of \<open>parseState\<close> is the innermost container.
\<close>

definition storeValue :: "json \<Rightarrow> scanner \<Rightarrow> scanner" where
  "storeValue v s =
     (case parseState s of
        [] \<Rightarrow> s\<lparr>decoded := Some v\<rparr>
      | parseArrayValue vs # ps \<Rightarrow> s\<lparr>parseState := parseArrayValue (vs @ [v]) # ps\<rparr>
      | parseObjectValue ms k # ps \<Rightarrow> s\<lparr>parseState := parseObjectValue (ms @ [(k, v)]) k # ps\<rparr>
      | parseObjectKey ms k # ps \<Rightarrow> s)"

definition pushParseState :: "frame \<Rightarrow> scanner \<Rightarrow> scanner" where
  "pushParseState f s =
     (let s' = s\<lparr>parseState := f # parseState s\<rparr>
      in if length (parseState s') \<le> maxNestingDepth then s' else scan_error s')"

definition popParseState :: "scanner \<Rightarrow> scanner" where
  "popParseState s =
     (case parseState s of
        [] \<Rightarrow> scan_error s
      | f # ps \<Rightarrow>
          (let v = (case f of
                      parseArrayValue vs \<Rightarrow> JArray vs
                    | parseObjectValue ms k \<Rightarrow> JObject ms
                    | parseObjectKey ms k \<Rightarrow> JObject ms);
               s' = storeValue v (s\<lparr>parseState := ps\<rparr>)
           in if ps = [] then s'\<lparr>step := StateEndTop, endTop := True\<rparr>
              else s'\<lparr>step := StateEndValue\<rparr>))"

definition stateEndTop :: "scanner \<Rightarrow> char \<Rightarrow> scanner" where
  "stateEndTop s c = (if \<not> isSpace c then scan_error s else s)"

definition stateEndValue :: "scanner \<Rightarrow> char \<Rightarrow> scanner" where
  "stateEndValue s c =
     (case parseState s of
        [] \<Rightarrow> stateEndTop (s\<lparr>step := StateEndTop, endTop := True\<rparr>) c
      | f # ps \<Rightarrow>
          if isSpace c then s\<lparr>step := StateEndValue\<rparr>
          else (case f of
                  parseObjectKey ms k \<Rightarrow>
                    if c = CHR '':'' then
                      s\<lparr>parseState := parseObjectValue ms k # ps, step := StateBeginValue\<rparr>
                    else scan_error s
                | parseObjectValue ms k \<Rightarrow>
                    if c = CHR '','' then
                      s\<lparr>parseState := parseObjectKey ms k # ps, step := StateBeginString\<rparr>
                    else if c = CHR ''}'' then popParseState s
                    else scan_error s
                | parseArrayValue vs \<Rightarrow>
                    if c = CHR '','' then s\<lparr>step := StateBeginValue\<rparr>
                    else if c = CHR '']'' then popParseState s
                    else scan_error s))"

definition stateBeginValue :: "scanner \<Rightarrow> char \<Rightarrow> scanner" where
  "stateBeginValue s c =
     (if isSpace c then s
      else if c = CHR ''{'' then
        pushParseState (parseObjectKey [] []) (s\<lparr>step := StateBeginStringOrEmpty\<rparr>)
      else if c = CHR ''['' then
        pushParseState (parseArrayValue []) (s\<lparr>step := StateBeginValueOrEmpty\<rparr>)
      else if c = CHR 0x22 then s\<lparr>step := StateInString, lit := []\<rparr>
      else if c = CHR ''-'' then s\<lparr>step := StateNeg\<rparr>
      else if c = CHR ''0'' then s\<lparr>step := State0\<rparr>
      else if c = CHR ''t'' then s\<lparr>step := StateT\<rparr>
      else if c = CHR ''f'' then s\<lparr>step := StateF\<rparr>
      else if c = CHR ''n'' then s\<lparr>step := StateN\<rparr>
      else if isDigit19 c then s\<lparr>step := State1\<rparr>
      else scan_error s)"

definition stateBeginValueOrEmpty :: "scanner \<Rightarrow> char \<Rightarrow> scanner" where
  "stateBeginValueOrEmpty s c =
     (if isSpace c then s
      else if c = CHR '']'' then stateEndValue s c
      else stateBeginValue s c)"

definition stateBeginString :: "scanner \<Rightarrow> char \<Rightarrow> scanner" where
  "stateBeginString s c =
     (if isSpace c then s
      else if c = CHR 0x22 then s\<lparr>step := StateInString, lit := []\<rparr>
      else scan_error s)"

definition stateBeginStringOrEmpty :: "scanner \<Rightarrow> char \<Rightarrow> scanner" where
  "stateBeginStringOrEmpty s c =
     (if isSpace c then s
      else if c = CHR ''}'' then
        stateEndValue
          (case parseState s of
             parseObjectKey ms k # ps \<Rightarrow> s\<lparr>parseState := parseObjectValue ms k # ps\<rparr>
           | _ \<Rightarrow> s) c
      else stateBeginString s c)"

subsection \<open>\<^verbatim>\<open>encoding/json\<close>: string literals\<close>

text \<open>
  \<^verbatim>\<open>unquoteBytes\<close> turns the bytes between the quotes of a string literal into the
  string they denote: escapes are replaced, \<^verbatim>\<open>\uXXXX\<close> escapes (and surrogate pairs of
  them) are encoded as UTF-8, and bytes that are not well-formed UTF-8 are replaced by
  U+FFFD. Go decodes a well-formed multi-byte sequence to a rune and encodes the rune
  again, which yields the same bytes; the model copies them. On a literal the scanner
  has accepted no escape is malformed; the model ends the string there.
\<close>

definition hexval :: "char \<Rightarrow> nat" where
  "hexval c =
     (if isDigit c then of_char c - 48
      else if 97 \<le> (of_char c :: nat) \<and> (of_char c :: nat) \<le> 102 then of_char c - 97 + 10
      else of_char c - 65 + 10)"

definition getu4 :: "string \<Rightarrow> nat option" where
  "getu4 s =
     (if length s < 6 \<or> s ! 0 \<noteq> CHR 0x5C \<or> s ! 1 \<noteq> CHR ''u'' then None
      else if list_all isHex (take 4 (drop 2 s)) then
        Some (foldl (\<lambda>r c. r * 16 + hexval c) 0 (take 4 (drop 2 s)))
      else None)"

definition RuneError :: nat where
  "RuneError = 0xFFFD"

definition isSurrogate :: "nat \<Rightarrow> bool" where
  "isSurrogate r = (0xD800 \<le> r \<and> r < 0xE000)"

definition decodeSurrogates :: "nat \<Rightarrow> nat option \<Rightarrow> nat option" where
  "decodeSurrogates r1 r2 =
     (case r2 of
        None \<Rightarrow> None
      | Some r2 \<Rightarrow>
          if 0xD800 \<le> r1 \<and> r1 < 0xDC00 \<and> 0xDC00 \<le> r2 \<and> r2 < 0xE000
          then Some ((r1 - 0xD800) * 1024 + (r2 - 0xDC00) + 0x10000)
          else None)"

definition encodeRune :: "nat \<Rightarrow> string" where
  "encodeRune r =
     (if r \<le> 0x7F then [char_of r]
      else if r \<le> 0x7FF then [char_of (0xC0 + r div 64), char_of (0x80 + r mod 64)]
      else if r > 0x10FFFF \<or> isSurrogate r then [CHR 0xEF, CHR 0xBF, CHR 0xBD]
      else if r \<le> 0xFFFF then
        [char_of (0xE0 + r div 4096), char_of (0x80 + (r div 64) mod 64),
         char_of (0x80 + r mod 64)]
      else
        [char_of (0xF0 + r div 262144), char_of (0x80 + (r div 4096) mod 64),
         char_of (0x80 + (r div 64) mod 64), char_of (0x80 + r mod 64)])"

definition inRange :: "nat \<Rightarrow> nat \<Rightarrow> char \<Rightarrow> bool" where
  "inRange lo hi c = (lo \<le> of_char c \<and> of_char c \<le> hi)"

text \<open>
  The length of the well-formed UTF-8 sequence at the head of \<open>p\<close> (for a first byte
  of 0x80 or more), following the table \<^verbatim>\<open>first\<close> and the \<^verbatim>\<open>acceptRanges\<close> of
  \<^verbatim>\<open>utf8.DecodeRune\<close>; 0 when the bytes are not well-formed.
\<close>

definition wellFormed :: "string \<Rightarrow> nat" where
  "wellFormed p =
     (case p of
        [] \<Rightarrow> 0
      | p0 # _ \<Rightarrow>
          (let (sz, lo, hi) =
             (if inRange 0xC2 0xDF p0 then (2, 0x80, 0xBF)
              else if inRange 0xE0 0xE0 p0 then (3, 0xA0, 0xBF)
              else if inRange 0xE1 0xEC p0 then (3, 0x80, 0xBF)
              else if inRange 0xED 0xED p0 then (3, 0x80, 0x9F)
              else if inRange 0xEE 0xEF p0 then (3, 0x80, 0xBF)
              else if inRange 0xF0 0xF0 p0 then (4, 0x90, 0xBF)
              else if inRange 0xF1 0xF3 p0 then (4, 0x80, 0xBF)
              else if inRange 0xF4 0xF4 p0 then (4, 0x80, 0x8F)
              else (0 :: nat, 0 :: nat, 0 :: nat))
           in if sz = 0 \<or> length p < sz then 0
              else if \<not> inRange lo hi (p ! 1) then 0
              else if sz \<le> 2 then 2
              else if \<not> inRange 0x80 0xBF (p ! 2) then 0
              else if sz \<le> 3 then 3
              else if \<not> inRange 0x80 0xBF (p ! 3) then 0
              else 4))"

definition unescape :: "char \<Rightarrow> char" where
  "unescape e =
     (if e = CHR ''b'' then CHR 0x08
      else if e = CHR ''f'' then CHR 0x0C
      else if e = CHR ''n'' then CHR 0x0A
      else if e = CHR ''r'' then CHR 0x0D
      else if e = CHR ''t'' then CHR 0x09
      else e)"

function unquote :: "string \<Rightarrow> string" where
  "unquote s =
     (case s of
        [] \<Rightarrow> []
      | c # r \<Rightarrow>
          if c = CHR 0x5C then
            (case r of
               [] \<Rightarrow> []
             | e # r' \<Rightarrow>
                 if e = CHR ''u'' then
                   (case getu4 s of
                      None \<Rightarrow> []
                    | Some rr \<Rightarrow>
                        if isSurrogate rr then
                          (case decodeSurrogates rr (getu4 (drop 6 s)) of
                             Some dec \<Rightarrow> encodeRune dec @ unquote (drop 12 s)
                           | None \<Rightarrow> encodeRune RuneError @ unquote (drop 6 s))
                        else encodeRune rr @ unquote (drop 6 s))
                 else unescape e # unquote r')
          else if (of_char c :: nat) < 0x80 then c # unquote r
          else (let n = wellFormed s
                in if n = 0 then encodeRune RuneError @ unquote r
                   else take n s @ unquote (drop n s)))"
  by pat_completeness auto
termination
  by (relation "measure length") auto

subsection \<open>\<^verbatim>\<open>encoding/json\<close>: the remaining state functions and \<^verbatim>\<open>checkValid\<close>\<close>

text \<open>
  The closing quote of a string literal ends an object key (the innermost container
  is in state \<open>parseObjectKey\<close>) or a string value.
\<close>

definition endString :: "scanner \<Rightarrow> scanner" where
  "endString s =
     (case parseState s of
        parseObjectKey ms k # ps \<Rightarrow> s\<lparr>parseState := parseObjectKey ms (unquote (lit s)) # ps\<rparr>
      | _ \<Rightarrow> storeValue (JString (unquote (lit s))) s)"

definition stateInString :: "scanner \<Rightarrow> char \<Rightarrow> scanner" where
  "stateInString s c =
     (if c = CHR 0x22 then endString (s\<lparr>step := StateEndValue\<rparr>)
      else if c = CHR 0x5C then s\<lparr>step := StateInStringEsc, lit := lit s @ [c]\<rparr>
      else if (of_char c :: nat) < 0x20 then scan_error s
      else s\<lparr>lit := lit s @ [c]\<rparr>)"

definition stateInStringEsc :: "scanner \<Rightarrow> char \<Rightarrow> scanner" where
  "stateInStringEsc s c =
     (if c \<in> set [CHR ''b'', CHR ''f'', CHR ''n'', CHR ''r'', CHR ''t'', CHR 0x5C, CHR ''/'', CHR 0x22]
      then s\<lparr>step := StateInString, lit := lit s @ [c]\<rparr>
      else if c = CHR ''u'' then s\<lparr>step := StateInStringEscU, lit := lit s @ [c]\<rparr>
      else scan_error s)"

definition stateInStringEscU :: "step_fn \<Rightarrow> scanner \<Rightarrow> char \<Rightarrow> scanner" where
  "stateInStringEscU next s c =
     (if isHex c then s\<lparr>step := next, lit := lit s @ [c]\<rparr> else scan_error s)"

definition stateNeg :: "scanner \<Rightarrow> char \<Rightarrow> scanner" where
  "stateNeg s c =
     (if c = CHR ''0'' then s\<lparr>step := State0\<rparr>
      else if isDigit19 c then s\<lparr>step := State1\<rparr>
      else scan_error s)"

definition state0 :: "scanner \<Rightarrow> char \<Rightarrow> scanner" where
  "state0 s c =
     (if c = CHR ''.'' then s\<lparr>step := StateDot\<rparr>
      else if c = CHR ''e'' \<or> c = CHR ''E'' then s\<lparr>step := StateE\<rparr>
      else stateEndValue (storeValue JNumber s) c)"

definition state1 :: "scanner \<Rightarrow> char \<Rightarrow> scanner" where
  "state1 s c = (if isDigit c then s\<lparr>step := State1\<rparr> else state0 s c)"

definition stateDot :: "scanner \<Rightarrow> char \<Rightarrow> scanner" where
  "stateDot s c = (if isDigit c then s\<lparr>step := StateDot0\<rparr> else scan_error s)"

definition stateDot0 :: "scanner \<Rightarrow> char \<Rightarrow> scanner" where
  "stateDot0 s c =
     (if isDigit c then s
      else if c = CHR ''e'' \<or> c = CHR ''E'' then s\<lparr>step := StateE\<rparr>
      else stateEndValue (storeValue JNumber s) c)"

definition stateESign :: "scanner \<Rightarrow> char \<Rightarrow> scanner" where
  "stateESign s c = (if isDigit c then s\<lparr>step := StateE0\<rparr> else scan_error s)"

definition stateE :: "scanner \<Rightarrow> char \<Rightarrow> scanner" where
  "stateE s c =
     (if c = CHR ''+'' \<or> c = CHR ''-'' then s\<lparr>step := StateESign\<rparr> else stateESign s c)"

definition stateE0 :: "scanner \<Rightarrow> char \<Rightarrow> scanner" where
  "stateE0 s c = (if isDigit c then s else stateEndValue (storeValue JNumber s) c)"

text \<open>
  The states inside \<^verbatim>\<open>true\<close>, \<^verbatim>\<open>false\<close> and \<^verbatim>\<open>null\<close>: \<open>stateLetter x next\<close> expects
  the letter \<open>x\<close>; \<open>stateLastLetter x v\<close> expects the last letter, which completes the
  value \<open>v\<close>.
\<close>

definition stateLetter :: "char \<Rightarrow> step_fn \<Rightarrow> scanner \<Rightarrow> char \<Rightarrow> scanner" where
  "stateLetter x next s c = (if c = x then s\<lparr>step := next\<rparr> else scan_error s)"

definition stateLastLetter :: "char \<Rightarrow> json \<Rightarrow> scanner \<Rightarrow> char \<Rightarrow> scanner" where
  "stateLastLetter x v s c =
     (if c = x then storeValue v (s\<lparr>step := StateEndValue\<rparr>) else scan_error s)"

definition scan_step :: "scanner \<Rightarrow> char \<Rightarrow> scanner" where
  "scan_step s c =
     (case step s of
        StateBeginValueOrEmpty \<Rightarrow> stateBeginValueOrEmpty s c
      | StateBeginValue \<Rightarrow> stateBeginValue s c
      | StateBeginStringOrEmpty \<Rightarrow> stateBeginStringOrEmpty s c
      | StateBeginString \<Rightarrow> stateBeginString s c
      | StateEndValue \<Rightarrow> stateEndValue s c
      | StateEndTop \<Rightarrow> stateEndTop s c
      | StateInString \<Rightarrow> stateInString s c
      | StateInStringEsc \<Rightarrow> stateInStringEsc s c
      | StateInStringEscU \<Rightarrow> stateInStringEscU StateInStringEscU1 s c
      | StateInStringEscU1 \<Rightarrow> stateInStringEscU StateInStringEscU12 s c
      | StateInStringEscU12 \<Rightarrow> stateInStringEscU StateInStringEscU123 s c
      | StateInStringEscU123 \<Rightarrow> stateInStringEscU StateInString s c
      | StateNeg \<Rightarrow> stateNeg s c
      | State1 \<Rightarrow> state1 s c
      | State0 \<Rightarrow> state0 s c
      | StateDot \<Rightarrow> stateDot s c
      | StateDot0 \<Rightarrow> stateDot0 s c
      | StateE \<Rightarrow> stateE s c
      | StateESign \<Rightarrow> stateESign s c
      | StateE0 \<Rightarrow> stateE0 s c
      | StateT \<Rightarrow> stateLetter (CHR ''r'') StateTr s c
      | StateTr \<Rightarrow> stateLetter (CHR ''u'') StateTru s c
      | StateTru \<Rightarrow> stateLastLetter (CHR ''e'') (JBool True) s c
      | StateF \<Rightarrow> stateLetter (CHR ''a'') StateFa s c
      | StateFa \<Rightarrow> stateLetter (CHR ''l'') StateFal s c
      | StateFal \<Rightarrow> stateLetter (CHR ''s'') StateFals s c
      | StateFals \<Rightarrow> stateLastLetter (CHR ''e'') (JBool False) s c
      | StateN \<Rightarrow> stateLetter (CHR ''u'') StateNu s c
      | StateNu \<Rightarrow> stateLetter (CHR ''l'') StateNul s c
      | StateNul \<Rightarrow> stateLastLetter (CHR ''l'') JNull s c
      | StateError \<Rightarrow> s)"

text \<open>
  \<^verbatim>\<open>eof\<close>: at the end of the input a pending number is completed by stepping once
  more with a space; the input is accepted when a top-level value has ended.
\<close>

definition eof :: "scanner \<Rightarrow> scanner" where
  "eof s =
     (if step s = StateError then s
      else if endTop s then s
      else (let s' = scan_step s (CHR '' '')
            in if endTop s' then s' else scan_error s'))"

definition checkValid :: "string \<Rightarrow> json option" where
  "checkValid data =
     (let s = eof (foldl scan_step reset data)
      in if step s = StateError then None else decoded s)"

subsection \<open>\<^verbatim>\<open>encoding/json\<close>: \<^verbatim>\<open>Unmarshal\<close> into \<^verbatim>\<open>IPifyResponse\<close>\<close>

text \<open>
  \<^verbatim>\<open>type IPifyResponse struct { IP string `json:"ip"` }\<close> (lines 127-129).
  An object key selects the field when it is \<^verbatim>\<open>ip\<close> up to the case of its letters.
  A string value is stored, \<^verbatim>\<open>null\<close> leaves the field as it is, any other value
  records an \<^verbatim>\<open>UnmarshalTypeError\<close> and decoding goes on; members with other keys are
  skipped. At the top level an object is decoded member by member, \<^verbatim>\<open>null\<close> is
  accepted and changes nothing, and any other value is an \<^verbatim>\<open>UnmarshalTypeError\<close>.
  The first recorded error is the one returned.
\<close>

record IPifyResponse =
  IP :: string

datatype json_error = SyntaxError | UnmarshalTypeError

definition equalFold_ip :: "string \<Rightarrow> bool" where
  "equalFold_ip key = (key \<in> set [''ip'', ''IP'', ''Ip'', ''iP''])"

definition saveError :: "json_error \<Rightarrow> json_error option \<Rightarrow> json_error option" where
  "saveError e saved = (case saved of None \<Rightarrow> Some e | Some e' \<Rightarrow> Some e')"

fun object :: "(string \<times> json) list \<Rightarrow> json_error option \<times> IPifyResponse
    \<Rightarrow> json_error option \<times> IPifyResponse" where
  "object [] (err, v) = (err, v)"
| "object ((key, x) # members) (err, v) =
     (if equalFold_ip key then
        (case x of
           JString str \<Rightarrow> object members (err, v\<lparr>IP := str\<rparr>)
         | JNull \<Rightarrow> object members (err, v)
         | _ \<Rightarrow> object members (saveError UnmarshalTypeError err, v))
      else object members (err, v))"

definition json_Unmarshal :: "string \<Rightarrow> IPifyResponse \<Rightarrow> json_error option \<times> IPifyResponse" where
  "json_Unmarshal data v =
     (case checkValid data of
        None \<Rightarrow> (Some SyntaxError, v)
      | Some (JObject members) \<Rightarrow> object members (None, v)
      | Some JNull \<Rightarrow> (None, v)
      | Some _ \<Rightarrow> (Some UnmarshalTypeError, v))"

subsection \<open>The environment: network, logger, mutex\<close>

text \<open>
  \<^verbatim>\<open>client.Get(endpoint)\<close> returns a transport error or a response; a response has a
  status code and a body, and \<^verbatim>\<open>io.ReadAll(resp.Body)\<close> returns the bytes of the body
  or an error. A network gives, for an endpoint, the outcome of the \<open>n\<close>-th request the
  process issues (counted from 0); the number of requests issued so far is threaded
  through \<^verbatim>\<open>fetchExternalIP\<close>, which adds one for every \<^verbatim>\<open>client.Get\<close>.
\<close>

datatype read_result = ReadError string | ReadOK string

record Response =
  StatusCode :: int
  Body :: read_result

datatype get_result = GetError string | GetResponse Response

type_synonym network = "string \<Rightarrow> nat \<Rightarrow> get_result"

text \<open>
  The state outside \<^verbatim>\<open>Config\<close>: the number of requests issued, and the messages
  passed to \<^verbatim>\<open>log.Printf\<close>, oldest first (the logger adds date, time and a newline
  to each and writes it to the configured output).
\<close>

record world =
  requests :: nat
  logged :: "string list"

definition logMessage :: "string \<Rightarrow> world \<Rightarrow> world" where
  "logMessage line w = w\<lparr>logged := logged w @ [line]\<rparr>"

text \<open>
  \<^verbatim>\<open>sync.Mutex\<close> in a program with one goroutine: \<^verbatim>\<open>Lock\<close> on a held mutex never
  returns, and \<^verbatim>\<open>Unlock\<close> of a mutex that is not held is a fatal error. \<open>None\<close> is
  "does not return".
\<close>

datatype Mutex = Unlocked | Locked

definition Lock :: "Mutex \<Rightarrow> Mutex option" where
  "Lock m = (case m of Unlocked \<Rightarrow> Some Locked | Locked \<Rightarrow> None)"

definition Unlock :: "Mutex \<Rightarrow> Mutex option" where
  "Unlock m = (case m of Locked \<Rightarrow> Some Unlocked | Unlocked \<Rightarrow> None)"

subsection \<open>\<^verbatim>\<open>main.go\<close>\<close>

text \<open>\<^verbatim>\<open>type Config struct\<close> (lines 17-25).\<close>

record Config =
  Interval :: int
  LogFile :: string
  IPEndpoint :: string
  QuietMode :: bool
  MaxRetries :: int
  LastKnownIP :: string
  LastKnownIPLock :: Mutex

text \<open>
  The four errors \<^verbatim>\<open>fetchExternalIP\<close> builds with \<^verbatim>\<open>fmt.Errorf\<close>, each with the
  arguments of its format string (lines 141, 151, 161 and 167), and the message
  \<^verbatim>\<open>err.Error()\<close> of each.
\<close>

datatype error =
    ErrNoRequest int
  | ErrRequest int string
  | ErrStatus int int
  | ErrRead string

fun Error :: "error \<Rightarrow> string" where
  "Error (ErrNoRequest maxAttempts) =
     ''failed to make request after '' @ fmt_d maxAttempts @ '' attempts''"
| "Error (ErrRequest maxAttempts err) =
     ''failed to make request after '' @ fmt_d maxAttempts @ '' attempts: '' @ err"
| "Error (ErrStatus maxAttempts status) =
     ''failed after '' @ fmt_d maxAttempts @ '' attempts: HTTP status '' @ fmt_d status"
| "Error (ErrRead err) = ''failed to read response: '' @ err"

text \<open>
  Lines 170-177 of \<^verbatim>\<open>fetchExternalIP\<close>, the step from the bytes of the body to the
  address: \<^verbatim>\<open>ipResponse\<close> starts as the zero value.
\<close>

definition parseBody :: "string \<Rightarrow> string" where
  "parseBody body =
     (case json_Unmarshal body \<lparr>IP = []\<rparr> of
        (err, ipResponse) \<Rightarrow>
          if err = None \<and> IP ipResponse \<noteq> [] then IP ipResponse else body)"

text \<open>
  \<^verbatim>\<open>fetchExternalIP\<close> (lines 133-178). The result is the pair of Go's results
  (\<open>Inl\<close> the error, returned with the empty string; \<open>Inr\<close> the address, returned with
  a nil error) and the number of requests issued when it returns.
\<close>

function fetchExternalIP ::
    "network \<Rightarrow> string \<Rightarrow> int \<Rightarrow> int \<Rightarrow> nat \<Rightarrow> (error + string) \<times> nat" where
  "fetchExternalIP net endpoint attempt maxAttempts n =
     (if attempt > maxAttempts then (Inl (ErrNoRequest maxAttempts), n)
      else
        (case net endpoint n of
           GetError err \<Rightarrow>
             if attempt < maxAttempts then
               fetchExternalIP net endpoint (attempt + 1) maxAttempts (Suc n)
             else (Inl (ErrRequest maxAttempts err), Suc n)
         | GetResponse resp \<Rightarrow>
             if StatusCode resp < 200 \<or> StatusCode resp \<ge> 300 then
               (if attempt < maxAttempts then
                  fetchExternalIP net endpoint (attempt + 1) maxAttempts (Suc n)
                else (Inl (ErrStatus maxAttempts (StatusCode resp)), Suc n))
             else
               (case Body resp of
                  ReadError err \<Rightarrow> (Inl (ErrRead err), Suc n)
                | ReadOK body \<Rightarrow> (Inr (parseBody body), Suc n))))"
  by pat_completeness auto
termination
  by (relation "measure (\<lambda>(net, endpoint, attempt, maxAttempts, n). nat (maxAttempts - attempt))")
    auto

text \<open>
  \<^verbatim>\<open>checkIP\<close> (lines 104-124). The deferred \<^verbatim>\<open>Unlock\<close> runs last.
\<close>

definition checkIP :: "network \<Rightarrow> Config \<Rightarrow> world \<Rightarrow> (Config \<times> world) option" where
  "checkIP net config w =
     (case fetchExternalIP net (IPEndpoint config) 1 (MaxRetries config) (requests w) of
        (Inl err, n) \<Rightarrow>
          Some (config, logMessage (''Error checking IP: '' @ Error err) (w\<lparr>requests := n\<rparr>))
      | (Inr ip, n) \<Rightarrow>
          (case Lock (LastKnownIPLock config) of
             None \<Rightarrow> None
           | Some held \<Rightarrow>
               (let config1 = config\<lparr>LastKnownIPLock := held\<rparr>;
                    w1 = w\<lparr>requests := n\<rparr>;
                    (config2, w2) =
                      (if ip \<noteq> LastKnownIP config1 then
                         (config1\<lparr>LastKnownIP := ip\<rparr>,
                          if LastKnownIP config1 = [] then
                            logMessage (''Current external IP: '' @ ip) w1
                          else
                            logMessage
                              (''IP changed: '' @ LastKnownIP config1 @ '' -> '' @ ip) w1)
                       else (config1, w1))
                in (case Unlock (LastKnownIPLock config2) of
                      None \<Rightarrow> None
                    | Some released \<Rightarrow>
                        Some (config2\<lparr>LastKnownIPLock := released\<rparr>, w2)))))"

text \<open>
  The values of \<^verbatim>\<open>attempt\<close> with which \<^verbatim>\<open>fetchExternalIP\<close> is entered, the first call
  and every recursive call, in order: the same control flow, recording the parameter
  instead of the result.
\<close>

function attempts_entered :: "network \<Rightarrow> string \<Rightarrow> int \<Rightarrow> int \<Rightarrow> nat \<Rightarrow> int list" where
  "attempts_entered net endpoint attempt maxAttempts n =
     attempt #
     (if attempt > maxAttempts then []
      else
        (case net endpoint n of
           GetError err \<Rightarrow>
             if attempt < maxAttempts then
               attempts_entered net endpoint (attempt + 1) maxAttempts (Suc n)
             else []
         | GetResponse resp \<Rightarrow>
             if StatusCode resp < 200 \<or> StatusCode resp \<ge> 300 then
               (if attempt < maxAttempts then
                  attempts_entered net endpoint (attempt + 1) maxAttempts (Suc n)
                else [])
             else []))"
  by pat_completeness auto
termination
  by (relation "measure (\<lambda>(net, endpoint, attempt, maxAttempts, n). nat (maxAttempts - attempt))")
    auto

subsection \<open>Vocabulary of the properties\<close>

text \<open>
  An attempt is successful when there is no transport error and the status code is in
  the 2xx range.
\<close>

definition successful :: "get_result \<Rightarrow> bool" where
  "successful r =
     (case r of
        GetError err \<Rightarrow> False
      | GetResponse resp \<Rightarrow> 200 \<le> StatusCode resp \<and> StatusCode resp < 300)"

text \<open>
  The exhausted-retries error for \<open>maxAttempts\<close> attempts whose last one had the
  outcome \<open>r\<close>: it carries the attempt count and the cause, the transport error or the
  status code.
\<close>

definition exhausted :: "int \<Rightarrow> get_result \<Rightarrow> error" where
  "exhausted maxAttempts r =
     (case r of
        GetError err \<Rightarrow> ErrRequest maxAttempts err
      | GetResponse resp \<Rightarrow> ErrStatus maxAttempts (StatusCode resp))"

text \<open>
  Endpoints for concrete runs, after the test servers of \<^verbatim>\<open>main_test.go\<close>: one that
  answers every request alike, and one that answers the first requests from a list and
  every later one alike.
\<close>

definition always :: "get_result \<Rightarrow> network" where
  "always r = (\<lambda>endpoint n. r)"

definition replies :: "get_result list \<Rightarrow> get_result \<Rightarrow> network" where
  "replies rs r = (\<lambda>endpoint n. if n < length rs then rs ! n else r)"

definition respond :: "int \<Rightarrow> string \<Rightarrow> get_result" where
  "respond status body = GetResponse \<lparr>StatusCode = status, Body = ReadOK body\<rparr>"

text \<open>
  An error is an exhausted-retries error for \<open>maxAttempts\<close> attempts when it carries that
  attempt count and a cause.
\<close>

definition ExhaustedRetries :: "int \<Rightarrow> error \<Rightarrow> bool" where
  "ExhaustedRetries maxAttempts e =
     (case e of
        ErrNoRequest m \<Rightarrow> False
      | ErrRequest m cause \<Rightarrow> m = maxAttempts
      | ErrStatus m status \<Rightarrow> m = maxAttempts
      | ErrRead cause \<Rightarrow> False)"

text \<open>
  The configuration \<^verbatim>\<open>parseFlags\<close> (lines 43-56) returns when no flag is given, and
  the state of the world when the process starts.
\<close>

definition default_config :: Config where
  "default_config =
     \<lparr>Interval = 60, LogFile = [], IPEndpoint = ''https://api64.ipify.org?format=json'',
      QuietMode = False, MaxRetries = 5, LastKnownIP = [], LastKnownIPLock = Unlocked\<rparr>"

definition start :: world where
  "start = \<lparr>requests = 0, logged = []\<rparr>"

section \<open>Properties\<close>

subsection \<open>One attempt, and a run of failing attempts\<close>

text \<open>
  The defining equations recurse under conditions only; they are unfolded one step at a
  time.
\<close>

declare fetchExternalIP.simps [simp del]
declare attempts_entered.simps [simp del]

lemma fetch_guard:
  "maxAttempts < attempt \<Longrightarrow>
   fetchExternalIP net ep attempt maxAttempts n = (Inl (ErrNoRequest maxAttempts), n)"
  by (subst fetchExternalIP.simps) simp

lemma fetch_success:
  assumes "attempt \<le> maxAttempts" and "net ep n = GetResponse resp"
    and "200 \<le> StatusCode resp" and "StatusCode resp < 300"
  shows "fetchExternalIP net ep attempt maxAttempts n =
    ((case Body resp of
        ReadError err \<Rightarrow> Inl (ErrRead err)
      | ReadOK body \<Rightarrow> Inr (parseBody body)), Suc n)"
  using assms by (subst fetchExternalIP.simps) (simp split: read_result.splits)

lemma fetch_readable:
  assumes "attempt \<le> maxAttempts" and "net ep n = GetResponse resp"
    and "200 \<le> StatusCode resp" and "StatusCode resp < 300" and "Body resp = ReadOK body"
  shows "fetchExternalIP net ep attempt maxAttempts n = (Inr (parseBody body), Suc n)"
  using fetch_success [where net = net and ep = ep, OF assms(1-4)] assms(5) by simp

lemma fetch_retry:
  assumes "attempt < maxAttempts" and "\<not> successful (net ep n)"
  shows "fetchExternalIP net ep attempt maxAttempts n =
    fetchExternalIP net ep (attempt + 1) maxAttempts (Suc n)"
  using assms
  by (subst fetchExternalIP.simps) (auto simp: successful_def split: get_result.splits)

lemma fetch_last:
  assumes "\<not> successful (net ep n)"
  shows "fetchExternalIP net ep maxAttempts maxAttempts n =
    (Inl (exhausted maxAttempts (net ep n)), Suc n)"
  using assms
  by (subst fetchExternalIP.simps)
    (auto simp: successful_def exhausted_def split: get_result.splits)

lemma fetch_after_failures:
  assumes "\<forall>i<k. \<not> successful (net ep (n + i))" and "attempt + int k \<le> maxAttempts"
  shows "fetchExternalIP net ep attempt maxAttempts n =
    fetchExternalIP net ep (attempt + int k) maxAttempts (n + k)"
  using assms
proof (induction k arbitrary: attempt n)
  case 0
  then show ?case by simp
next
  case (Suc k)
  from Suc.prems(1) have first: "\<not> successful (net ep n)"
    by (metis add.right_neutral zero_less_Suc)
  have rest: "\<forall>i<k. \<not> successful (net ep (Suc n + i))"
  proof (intro allI impI)
    fix i assume "i < k"
    then have "Suc i < Suc k" by simp
    with Suc.prems(1) have "\<not> successful (net ep (n + Suc i))" by blast
    then show "\<not> successful (net ep (Suc n + i))" by simp
  qed
  from Suc.prems(2) have lt: "attempt < maxAttempts" and le: "(attempt + 1) + int k \<le> maxAttempts"
    by simp_all
  have "fetchExternalIP net ep attempt maxAttempts n =
      fetchExternalIP net ep (attempt + 1) maxAttempts (Suc n)"
    using lt first by (rule fetch_retry)
  also have "\<dots> = fetchExternalIP net ep ((attempt + 1) + int k) maxAttempts (Suc n + k)"
    using rest le by (rule Suc.IH)
  finally show ?case by (simp add: add.commute add.left_commute)
qed

lemma fetch_all_fail:
  assumes "1 \<le> N" and "\<forall>i<nat N. \<not> successful (net ep (n + i))"
  shows "fetchExternalIP net ep 1 N n =
    (Inl (exhausted N (net ep (n + nat N - 1))), n + nat N)"
proof -
  define k where "k = nat N - 1"
  have kN: "int k = N - 1" and k_lt: "k < nat N" and Sk: "Suc k = nat N"
    using assms(1) by (simp_all add: k_def)
  have "\<forall>i<k. \<not> successful (net ep (n + i))"
    using assms(2) k_lt by auto
  moreover have "1 + int k \<le> N" using kN by simp
  ultimately have "fetchExternalIP net ep 1 N n = fetchExternalIP net ep (1 + int k) N (n + k)"
    by (rule fetch_after_failures)
  also have "\<dots> = fetchExternalIP net ep N N (n + k)" using kN by simp
  also have "\<dots> = (Inl (exhausted N (net ep (n + k))), Suc (n + k))"
    using assms(2) k_lt by (intro fetch_last) blast
  finally show ?thesis using Sk by (simp add: k_def)
qed

lemma fetch_all_fail_status:
  assumes "1 \<le> N" and "\<forall>i<nat N. \<not> successful (net ep (n + i))"
    and "net ep (n + nat N - 1) = GetResponse resp"
  shows "fetchExternalIP net ep 1 N n = (Inl (ErrStatus N (StatusCode resp)), n + nat N)"
  using fetch_all_fail [where net = net and ep = ep and n = n, OF assms(1,2)] assms(3)
  by (simp add: exhausted_def)

subsection \<open>Errors, and the values of \<^verbatim>\<open>attempt\<close>\<close>

lemma fetch_error_cases:
  assumes "attempt \<le> maxAttempts"
    and "fetchExternalIP net ep attempt maxAttempts n = (Inl e, n')"
  shows "(n' = n + nat (maxAttempts - attempt + 1) \<and> \<not> successful (net ep (n' - 1))
            \<and> e = exhausted maxAttempts (net ep (n' - 1)))
       \<or> (\<exists>resp cause. n < n' \<and> net ep (n' - 1) = GetResponse resp
            \<and> successful (net ep (n' - 1)) \<and> Body resp = ReadError cause \<and> e = ErrRead cause)"
  using assms
proof (induction net ep attempt maxAttempts n rule: fetchExternalIP.induct)
  case (1 net ep attempt maxAttempts n)
  show ?case
  proof (cases "successful (net ep n)")
    case True
    then obtain resp where resp: "net ep n = GetResponse resp"
      "200 \<le> StatusCode resp" "StatusCode resp < 300"
      by (auto simp: successful_def split: get_result.splits)
    from fetch_success [where net = net and ep = ep, OF "1.prems"(1) resp] "1.prems"(2)
    have "n' = Suc n" and "(case Body resp of ReadError err \<Rightarrow> Inl (ErrRead err)
        | ReadOK body \<Rightarrow> Inr (parseBody body)) = Inl e"
      by simp_all
    then show ?thesis using True resp(1)
      by (auto split: read_result.splits)
  next
    case False
    show ?thesis
    proof (cases "attempt < maxAttempts")
      case True
      have eq: "fetchExternalIP net ep attempt maxAttempts n =
          fetchExternalIP net ep (attempt + 1) maxAttempts (Suc n)"
        using True False by (rule fetch_retry)
      have le: "attempt + 1 \<le> maxAttempts" using True by simp
      have nle: "\<not> maxAttempts < attempt" using True by simp
      have rec: "fetchExternalIP net ep (attempt + 1) maxAttempts (Suc n) = (Inl e, n')"
        using eq "1.prems"(2) by simp
      have arith:
        "Suc n + nat (maxAttempts - (attempt + 1) + 1) = n + nat (maxAttempts - attempt + 1)"
        using True by simp
      have "(n' = n + nat (maxAttempts - attempt + 1) \<and> \<not> successful (net ep (n' - 1))
            \<and> e = exhausted maxAttempts (net ep (n' - 1)))
          \<or> (\<exists>resp cause. Suc n < n' \<and> net ep (n' - 1) = GetResponse resp
            \<and> successful (net ep (n' - 1)) \<and> Body resp = ReadError cause \<and> e = ErrRead cause)"
      proof (cases "net ep n")
        case (GetError err)
        show ?thesis by (rule "1.IH"(1) [OF nle GetError True le rec, unfolded arith])
      next
        case (GetResponse resp)
        with False have bad: "StatusCode resp < 200 \<or> 300 \<le> StatusCode resp"
          by (auto simp: successful_def)
        show ?thesis by (rule "1.IH"(2) [OF nle GetResponse bad True le rec, unfolded arith])
      qed
      then show ?thesis
      proof (elim disjE)
        assume "n' = n + nat (maxAttempts - attempt + 1) \<and> \<not> successful (net ep (n' - 1))
            \<and> e = exhausted maxAttempts (net ep (n' - 1))"
        then show ?thesis by (rule disjI1)
      next
        assume "\<exists>resp cause. Suc n < n' \<and> net ep (n' - 1) = GetResponse resp
            \<and> successful (net ep (n' - 1)) \<and> Body resp = ReadError cause \<and> e = ErrRead cause"
        then obtain resp cause where later: "Suc n < n'"
          and rest: "net ep (n' - 1) = GetResponse resp \<and> successful (net ep (n' - 1))
            \<and> Body resp = ReadError cause \<and> e = ErrRead cause"
          by blast
        from later have "n < n'" by simp
        with rest show ?thesis by blast
      qed
    next
      case False
      with "1.prems"(1) have eq: "attempt = maxAttempts" by simp
      from fetch_last [where net = net and ep = ep and n = n and maxAttempts = maxAttempts,
          OF \<open>\<not> successful (net ep n)\<close>] "1.prems"(2) eq
      have "n' = Suc n" "e = exhausted maxAttempts (net ep n)" by simp_all
      then show ?thesis using eq \<open>\<not> successful (net ep n)\<close> by simp
    qed
  qed
qed

lemma attempts_entered_bounds:
  assumes "attempt \<le> maxAttempts"
  shows "\<forall>a \<in> set (attempts_entered net ep attempt maxAttempts n). attempt \<le> a \<and> a \<le> maxAttempts"
  using assms
proof (induction net ep attempt maxAttempts n rule: attempts_entered.induct)
  case (1 net ep attempt maxAttempts n)
  show ?case
    using "1.prems" "1.IH"
    by (subst attempts_entered.simps)
      (fastforce split: get_result.splits)
qed

lemma fetch_never_ErrNoRequest:
  assumes "attempt \<le> maxAttempts"
  shows "fst (fetchExternalIP net ep attempt maxAttempts n) \<noteq> Inl (ErrNoRequest m)"
  using assms
proof (induction net ep attempt maxAttempts n rule: fetchExternalIP.induct)
  case (1 net ep attempt maxAttempts n)
  show ?case
    using "1.prems" "1.IH"
    by (subst fetchExternalIP.simps)
      (auto split: get_result.splits read_result.splits)
qed

lemma requests_attempts_entered:
  "snd (fetchExternalIP net ep attempt maxAttempts n) =
     n + length (filter (\<lambda>a. a \<le> maxAttempts) (attempts_entered net ep attempt maxAttempts n))"
proof (induction net ep attempt maxAttempts n rule: fetchExternalIP.induct)
  case (1 net ep attempt maxAttempts n)
  show ?case
    using "1.IH"
    by (subst fetchExternalIP.simps, subst attempts_entered.simps)
      (auto split: get_result.splits read_result.splits)
qed

lemma ExhaustedRetries_exhausted: "ExhaustedRetries N (exhausted N r)"
  by (simp add: ExhaustedRetries_def exhausted_def split: get_result.splits)

lemma Error_exhausted_mentions:
  "\<exists>pre post. Error (exhausted N r) = pre @ fmt_d N @ '' attempts'' @ post"
proof (cases r)
  case (GetError err)
  have "Error (exhausted N r) = ''failed to make request after '' @ fmt_d N @ '' attempts'' @ ('': '' @ err)"
    using GetError by (simp add: exhausted_def)
  then show ?thesis by blast
next
  case (GetResponse resp)
  have "Error (exhausted N r) =
      ''failed after '' @ fmt_d N @ '' attempts'' @ ('': HTTP status '' @ fmt_d (StatusCode resp))"
    using GetResponse by (simp add: exhausted_def)
  then show ?thesis by blast
qed

subsection \<open>The parse step and one check\<close>

lemma parseBody_decoded:
  assumes "json_Unmarshal body \<lparr>IP = []\<rparr> = (None, ipResponse)" and "IP ipResponse \<noteq> []"
  shows "parseBody body = IP ipResponse"
  using assms by (simp add: parseBody_def)

lemma parseBody_verbatim:
  assumes "\<not> (\<exists>ipResponse. json_Unmarshal body \<lparr>IP = []\<rparr> = (None, ipResponse) \<and> IP ipResponse \<noteq> [])"
  shows "parseBody body = body"
  using assms by (auto simp: parseBody_def split: prod.splits)

lemma parseBody_not_json:
  assumes "checkValid body = None"
  shows "parseBody body = body"
  using assms by (simp add: parseBody_def json_Unmarshal_def)

text \<open>
  What decoding into \<^verbatim>\<open>IPifyResponse\<close> accepts: the key in any case, other members,
  white space; and what it leaves to the raw text: an empty field, a value of another
  type, text after the object, \<^verbatim>\<open>null\<close>.
\<close>

lemma parseBody_examples:
  "parseBody ''{\"IP\":\"203.0.113.5\"}'' = ''203.0.113.5''"
  "parseBody ''{\"ip\":\"203.0.113.5\",\"ttl\":[60,true,null]}'' = ''203.0.113.5''"
  "parseBody '' {\"ip\" : \"2001:db8::1\"} '' = ''2001:db8::1''"
  "parseBody ''{\"ip\":\"\"}'' = ''{\"ip\":\"\"}''"
  "parseBody ''{\"ip\":7}'' = ''{\"ip\":7}''"
  "parseBody ''{\"ip\":\"203.0.113.5\"} x'' = ''{\"ip\":\"203.0.113.5\"} x''"
  "parseBody ''null'' = ''null''"
  by code_simp+

lemma checkIP_failure:
  assumes "fetchExternalIP net (IPEndpoint config) 1 (MaxRetries config) (requests w) = (Inl err, n)"
  shows "checkIP net config w =
    Some (config, logMessage (''Error checking IP: '' @ Error err) (w\<lparr>requests := n\<rparr>))"
  using assms by (simp add: checkIP_def)

lemma checkIP_success:
  assumes "fetchExternalIP net (IPEndpoint config) 1 (MaxRetries config) (requests w) = (Inr ip, n)"
    and "LastKnownIPLock config = Unlocked"
  shows "checkIP net config w =
    Some (if ip \<noteq> LastKnownIP config then
            (config\<lparr>LastKnownIP := ip\<rparr>,
             logMessage
               (if LastKnownIP config = [] then ''Current external IP: '' @ ip
                else ''IP changed: '' @ LastKnownIP config @ '' -> '' @ ip)
               (w\<lparr>requests := n\<rparr>))
          else (config, w\<lparr>requests := n\<rparr>))"
proof -
  have unlocked: "config\<lparr>LastKnownIPLock := Unlocked\<rparr> = config"
    using assms(2) by simp
  show ?thesis
    using assms unlocked
    by (simp add: checkIP_def Lock_def Unlock_def Let_def)
qed

lemma checkIP_blocked:
  assumes "fetchExternalIP net (IPEndpoint config) 1 (MaxRetries config) (requests w) = (Inr ip, n)"
    and "LastKnownIPLock config = Locked"
  shows "checkIP net config w = None"
  using assms by (simp add: checkIP_def Lock_def)

lemma checkIP_returns:
  assumes "fetchExternalIP net (IPEndpoint config) 1 (MaxRetries config) (requests w) = (r, n)"
  shows "checkIP net config w = None \<longleftrightarrow> \<not> isl r \<and> LastKnownIPLock config = Locked"
proof (cases r)
  case (Inl err)
  with assms show ?thesis by (simp add: checkIP_failure)
next
  case (Inr ip)
  show ?thesis
  proof (cases "LastKnownIPLock config")
    case Unlocked
    with assms Inr show ?thesis by (simp add: checkIP_success)
  next
    case Locked
    with assms Inr show ?thesis by (simp add: checkIP_blocked)
  qed
qed

lemma checkIP_result:
  assumes "checkIP net config w = Some (config', w')"
    and "fetchExternalIP net (IPEndpoint config) 1 (MaxRetries config) (requests w) = (r, n)"
  shows "config' = config\<lparr>LastKnownIP := (case r of Inl err \<Rightarrow> LastKnownIP config | Inr ip \<Rightarrow> ip)\<rparr>"
proof (cases r)
  case (Inl err)
  with assms show ?thesis by (simp add: checkIP_failure)
next
  case (Inr ip)
  with assms checkIP_returns [OF assms(2)] have "LastKnownIPLock config = Unlocked"
    by (cases "LastKnownIPLock config") simp_all
  with assms Inr show ?thesis by (auto simp: checkIP_success split: if_splits)
qed

subsection \<open>The errors that reach the caller\<close>

text \<open>
  Claim C1 says that every error \<^verbatim>\<open>fetchExternalIP\<close> returns is an exhausted-retries
  error. A 2xx response whose body cannot be read is a case against it: line 167
  returns \<^verbatim>\<open>failed to read response\<close> at once, with no attempt count.
\<close>

theorem unreadable_body_counterexample:
  "fetchExternalIP (always (GetResponse \<lparr>StatusCode = 200, Body = ReadError ''unexpected EOF''\<rparr>))
      (IPEndpoint default_config) 1 5 0 = (Inl (ErrRead ''unexpected EOF''), 1)
   \<and> \<not> ExhaustedRetries 5 (ErrRead ''unexpected EOF'')
   \<and> Error (ErrRead ''unexpected EOF'') = ''failed to read response: unexpected EOF''"
  by code_simp

text \<open>
  Claim C1, as amended: called with \<open>attempt = 1\<close> and \<open>maxAttempts = N \<ge> 1\<close>, every
  error \<^verbatim>\<open>fetchExternalIP\<close> returns is either an exhausted-retries error, returned
  after exactly \<open>N\<close> requests and carrying \<open>N\<close> and the cause of the last request's
  failure, or the error \<^verbatim>\<open>failed to read response\<close> carrying the cause for which the
  body of a 2xx response, the last request's, could not be read.
\<close>

theorem fetch_error_kinds:
  assumes "1 \<le> N" and "fetchExternalIP net endpoint 1 N n = (Inl e, n')"
  shows "(ExhaustedRetries N e \<and> n' = n + nat N \<and> \<not> successful (net endpoint (n' - 1))
            \<and> e = exhausted N (net endpoint (n' - 1)))
       \<or> (\<exists>resp cause. e = ErrRead cause \<and> n < n' \<and> net endpoint (n' - 1) = GetResponse resp
            \<and> successful (net endpoint (n' - 1)) \<and> Body resp = ReadError cause)"
proof -
  have "nat (N - 1 + 1) = nat N" by simp
  with fetch_error_cases [OF assms] show ?thesis
    by (auto simp: ExhaustedRetries_exhausted)
qed

theorem fetch_error_kinds_witness:
  "(1::int) \<le> 5
   \<and> fetchExternalIP (always (respond 503 [])) ''http://ip.example'' 1 5 0 = (Inl (ErrStatus 5 503), 5)
   \<and> ExhaustedRetries 5 (ErrStatus 5 503)
   \<and> ErrStatus 5 503 = exhausted 5 (always (respond 503 []) ''http://ip.example'' 4)"
proof -
  have h1: "(1::int) \<le> 5" by simp
  have h2: "fetchExternalIP (always (respond 503 [])) ''http://ip.example'' 1 5 0 =
      (Inl (ErrStatus 5 503), 5)"
    by code_simp
  from fetch_error_kinds [OF h1 h2] h1 h2 show ?thesis
    by (auto simp: always_def respond_def)
qed

subsection \<open>The cached address\<close>

text \<open>
  Claim C2 says that a non-empty cached address changes only when the fetch returns a
  different non-empty string. An empty body with a 2xx status is a case against it:
  the fetch succeeds with the empty string, which differs from the cached address and
  replaces it.
\<close>

theorem empty_address_counterexample:
  "fetchExternalIP (always (respond 200 [])) (IPEndpoint default_config) 1
      (MaxRetries default_config) (requests start) = (Inr [], 1)
   \<and> checkIP (always (respond 200 [])) (default_config\<lparr>LastKnownIP := ''203.0.113.5''\<rparr>) start =
       Some (default_config\<lparr>LastKnownIP := []\<rparr>,
             \<lparr>requests = 1, logged = [''IP changed: 203.0.113.5 -> '']\<rparr>)"
  by code_simp

text \<open>
  Claim C2, as amended: \<^verbatim>\<open>checkIP\<close> returns when its fetch fails or the mutex is
  free; if the fetch fails, \<open>LastKnownIP\<close> is unchanged; and \<^verbatim>\<open>checkIP\<close> sets
  \<open>LastKnownIP\<close> to a new value if and only if the fetch succeeds and returns a string
  different from it, empty or not, which is then the new value.
\<close>

theorem cache_update:
  assumes "fetchExternalIP net (IPEndpoint config) 1 (MaxRetries config) (requests w) = (r, n)"
  shows "(isl r \<or> LastKnownIPLock config = Unlocked \<longrightarrow> checkIP net config w \<noteq> None)
       \<and> (\<forall>config' w'. checkIP net config w = Some (config', w') \<longrightarrow>
            (isl r \<longrightarrow> LastKnownIP config' = LastKnownIP config)
          \<and> (LastKnownIP config' \<noteq> LastKnownIP config
               \<longleftrightarrow> (\<exists>ip. r = Inr ip \<and> ip \<noteq> LastKnownIP config))
          \<and> (\<forall>ip. r = Inr ip \<longrightarrow> LastKnownIP config' = ip))"
proof (intro conjI allI impI)
  assume "isl r \<or> LastKnownIPLock config = Unlocked"
  then show "checkIP net config w \<noteq> None"
    using checkIP_returns [OF assms] by auto
next
  fix config' w'
  assume ret: "checkIP net config w = Some (config', w')"
  note res = checkIP_result [OF ret assms]
  {
    assume "isl r"
    then show "LastKnownIP config' = LastKnownIP config"
      using res by (cases r) simp_all
  }
  show "LastKnownIP config' \<noteq> LastKnownIP config
      \<longleftrightarrow> (\<exists>ip. r = Inr ip \<and> ip \<noteq> LastKnownIP config)"
    using res by (cases r) simp_all
  {
    fix ip assume "r = Inr ip"
    then show "LastKnownIP config' = ip" using res by simp
  }
qed

theorem cache_update_witness:
  "fetchExternalIP (always (respond 200 ''198.51.100.7''))
      (IPEndpoint (default_config\<lparr>LastKnownIP := ''203.0.113.5''\<rparr>)) 1
      (MaxRetries (default_config\<lparr>LastKnownIP := ''203.0.113.5''\<rparr>)) (requests start) =
     (Inr ''198.51.100.7'', 1)
   \<and> checkIP (always (respond 200 ''198.51.100.7''))
        (default_config\<lparr>LastKnownIP := ''203.0.113.5''\<rparr>) start =
       Some (default_config\<lparr>LastKnownIP := ''198.51.100.7''\<rparr>,
             \<lparr>requests = 1, logged = [''IP changed: 203.0.113.5 -> 198.51.100.7'']\<rparr>)
   \<and> LastKnownIP (default_config\<lparr>LastKnownIP := ''198.51.100.7''\<rparr>) = ''198.51.100.7''"
proof -
  let ?net = "always (respond 200 ''198.51.100.7'')"
  let ?config = "default_config\<lparr>LastKnownIP := ''203.0.113.5''\<rparr>"
  have h: "fetchExternalIP ?net (IPEndpoint ?config) 1 (MaxRetries ?config) (requests start) =
      (Inr ''198.51.100.7'', 1)"
    by code_simp
  have c: "checkIP ?net ?config start =
      Some (default_config\<lparr>LastKnownIP := ''198.51.100.7''\<rparr>,
            \<lparr>requests = 1, logged = [''IP changed: 203.0.113.5 -> 198.51.100.7'']\<rparr>)"
    by code_simp
  from cache_update [OF h] c
  have "LastKnownIP (default_config\<lparr>LastKnownIP := ''198.51.100.7''\<rparr>) = ''198.51.100.7''"
    by blast
  with h c show ?thesis by blast
qed

subsection \<open>Attempt counting\<close>

text \<open>
  Claim C3: for \<open>maxAttempts = N \<ge> 1\<close> and an endpoint whose next \<open>N\<close> requests all
  fail, \<^verbatim>\<open>fetchExternalIP\<close> called with \<open>attempt = 1\<close> issues exactly \<open>N\<close> requests and
  returns the exhausted-retries error of the last outcome, whose message mentions
  \<open>N\<close> attempts.
\<close>

theorem attempt_bounding:
  assumes "1 \<le> N" and "\<forall>i<nat N. \<not> successful (net endpoint (n + i))"
  shows "\<exists>e. fetchExternalIP net endpoint 1 N n = (Inl e, n + nat N)
           \<and> e = exhausted N (net endpoint (n + nat N - 1))
           \<and> (\<exists>pre post. Error e = pre @ fmt_d N @ '' attempts'' @ post)"
  using fetch_all_fail [where net = net and ep = endpoint and n = n, OF assms]
    Error_exhausted_mentions [of N "net endpoint (n + nat N - 1)"]
  by simp

theorem attempt_bounding_witness:
  "\<exists>e. fetchExternalIP (always (respond 500 [])) ''http://ip.example'' 1 3 0 = (Inl e, 3)
      \<and> e = ErrStatus 3 500
      \<and> (\<exists>pre post. Error e = pre @ ''3 attempts'' @ post)"
proof -
  have h1: "(1::int) \<le> 3" by simp
  have h2: "\<forall>i<nat 3. \<not> successful (always (respond 500 []) ''http://ip.example'' (0 + i))"
    by (simp add: always_def respond_def successful_def)
  have d: "fmt_d 3 = ''3''" by code_simp
  from attempt_bounding [where net = "always (respond 500 [])" and endpoint = "''http://ip.example''"
      and n = 0, OF h1 h2]
  show ?thesis
    by (simp add: d always_def respond_def exhausted_def)
qed

text \<open>
  Claim C4: for \<open>k < N\<close>, if the next \<open>k\<close> requests fail and the one after them is
  answered with a 2xx status and a readable body, \<^verbatim>\<open>fetchExternalIP\<close> called with
  \<open>attempt = 1\<close> returns the address parsed from that body, with no error, after exactly
  \<open>k + 1\<close> requests.
\<close>

theorem retry_recovery:
  assumes "int k < N"
    and "\<forall>i<k. \<not> successful (net endpoint (n + i))"
    and "net endpoint (n + k) = GetResponse resp"
    and "200 \<le> StatusCode resp" and "StatusCode resp < 300"
    and "Body resp = ReadOK body"
  shows "fetchExternalIP net endpoint 1 N n = (Inr (parseBody body), n + k + 1)"
proof -
  have "1 + int k \<le> N" using assms(1) by simp
  with assms(2) have "fetchExternalIP net endpoint 1 N n =
      fetchExternalIP net endpoint (1 + int k) N (n + k)"
    by (rule fetch_after_failures)
  also have "\<dots> = ((case Body resp of ReadError err \<Rightarrow> Inl (ErrRead err)
      | ReadOK body \<Rightarrow> Inr (parseBody body)), Suc (n + k))"
    using \<open>1 + int k \<le> N\<close> assms(3-5) by (rule fetch_success)
  finally show ?thesis using assms(6) by simp
qed

theorem retry_recovery_witness:
  "fetchExternalIP
     (replies [respond 500 [], respond 500 []] (respond 200 ''{\"ip\":\"192.168.1.100\"}''))
     ''http://ip.example'' 1 5 0 = (Inr ''192.168.1.100'', 3)"
proof -
  let ?net = "replies [respond 500 [], respond 500 []] (respond 200 ''{\"ip\":\"192.168.1.100\"}'')"
  let ?resp = "\<lparr>StatusCode = 200, Body = ReadOK ''{\"ip\":\"192.168.1.100\"}''\<rparr>"
  have h1: "int 2 < 5" by simp
  have h2: "\<forall>i<2. \<not> successful (?net ''http://ip.example'' (0 + i))"
    by (auto simp: replies_def respond_def successful_def less_Suc_eq numeral_2_eq_2)
  have h3: "?net ''http://ip.example'' (0 + 2) = GetResponse ?resp"
    by (simp add: replies_def respond_def)
  have h4: "200 \<le> StatusCode ?resp" and h5: "StatusCode ?resp < 300"
    and h6: "Body ?resp = ReadOK ''{\"ip\":\"192.168.1.100\"}''"
    by simp_all
  have p: "parseBody ''{\"ip\":\"192.168.1.100\"}'' = ''192.168.1.100''"
    by code_simp
  from retry_recovery [where net = ?net and endpoint = "''http://ip.example''" and n = 0,
      OF h1 h2 h3 h4 h5 h6]
  show ?thesis by (simp add: p)
qed

subsection \<open>The parse step\<close>

text \<open>
  Claim C5: if \<^verbatim>\<open>json.Unmarshal\<close> decodes the body without error and leaves a
  non-empty \<open>IP\<close> field, the parse step returns that field; otherwise, and in
  particular when the body is not JSON, it returns the body verbatim; on a 2xx
  response with a readable body \<^verbatim>\<open>fetchExternalIP\<close> returns the parsed address and
  never an error. The body \<^verbatim>\<open>{"ip":"203.0.113.5"}\<close> yields \<^verbatim>\<open>203.0.113.5\<close>, and the
  body \<^verbatim>\<open>203.0.113.9\<close>, which is not JSON, yields itself, as it does when it
  comes between double quotes (a JSON string, which does not decode into the struct).
\<close>

theorem parse_step:
  "(\<forall>ipResponse. json_Unmarshal body \<lparr>IP = []\<rparr> = (None, ipResponse) \<and> IP ipResponse \<noteq> []
       \<longrightarrow> parseBody body = IP ipResponse)
   \<and> (\<not> (\<exists>ipResponse. json_Unmarshal body \<lparr>IP = []\<rparr> = (None, ipResponse)
            \<and> IP ipResponse \<noteq> [])
       \<longrightarrow> parseBody body = body)
   \<and> (checkValid body = None \<longrightarrow> parseBody body = body)
   \<and> (\<forall>resp. attempt \<le> maxAttempts \<and> net endpoint n = GetResponse resp
          \<and> 200 \<le> StatusCode resp \<and> StatusCode resp < 300 \<and> Body resp = ReadOK body
       \<longrightarrow> fetchExternalIP net endpoint attempt maxAttempts n = (Inr (parseBody body), Suc n))
   \<and> parseBody ''{\"ip\":\"203.0.113.5\"}'' = ''203.0.113.5''
   \<and> parseBody ''203.0.113.9'' = ''203.0.113.9''
   \<and> parseBody ''\"203.0.113.9\"'' = ''\"203.0.113.9\"''"
proof (intro conjI allI impI)
  fix ipResponse
  assume "json_Unmarshal body \<lparr>IP = []\<rparr> = (None, ipResponse) \<and> IP ipResponse \<noteq> []"
  then show "parseBody body = IP ipResponse" by (simp add: parseBody_decoded)
next
  assume "\<not> (\<exists>ipResponse. json_Unmarshal body \<lparr>IP = []\<rparr> = (None, ipResponse)
      \<and> IP ipResponse \<noteq> [])"
  then show "parseBody body = body" by (rule parseBody_verbatim)
next
  assume "checkValid body = None"
  then show "parseBody body = body" by (rule parseBody_not_json)
next
  fix resp
  assume "attempt \<le> maxAttempts \<and> net endpoint n = GetResponse resp
      \<and> 200 \<le> StatusCode resp \<and> StatusCode resp < 300 \<and> Body resp = ReadOK body"
  then show "fetchExternalIP net endpoint attempt maxAttempts n = (Inr (parseBody body), Suc n)"
    using fetch_readable [where net = net and ep = endpoint] by blast
next
  have "json_Unmarshal ''{\"ip\":\"203.0.113.5\"}'' \<lparr>IP = []\<rparr> = (None, \<lparr>IP = ''203.0.113.5''\<rparr>)"
    by code_simp
  then show "parseBody ''{\"ip\":\"203.0.113.5\"}'' = ''203.0.113.5''"
    by (simp add: parseBody_def)
next
  have "checkValid ''203.0.113.9'' = None" by code_simp
  then show "parseBody ''203.0.113.9'' = ''203.0.113.9''" by (rule parseBody_not_json)
next
  have "json_Unmarshal ''\"203.0.113.9\"'' \<lparr>IP = []\<rparr> = (Some UnmarshalTypeError, \<lparr>IP = []\<rparr>)"
    by code_simp
  then show "parseBody ''\"203.0.113.9\"'' = ''\"203.0.113.9\"''"
    by (simp add: parseBody_def)
qed

theorem parse_step_witness:
  "json_Unmarshal ''{\"ip\":\"198.51.100.7\"}'' \<lparr>IP = []\<rparr> = (None, \<lparr>IP = ''198.51.100.7''\<rparr>)
   \<and> parseBody ''{\"ip\":\"198.51.100.7\"}'' = ''198.51.100.7''
   \<and> checkValid ''<html>busy</html>'' = None
   \<and> parseBody ''<html>busy</html>'' = ''<html>busy</html>''
   \<and> fetchExternalIP (always (respond 200 ''<html>busy</html>'')) ''http://ip.example'' 1 5 0 =
        (Inr ''<html>busy</html>'', 1)"
proof -
  have h1: "json_Unmarshal ''{\"ip\":\"198.51.100.7\"}'' \<lparr>IP = []\<rparr> =
      (None, \<lparr>IP = ''198.51.100.7''\<rparr>)"
    by code_simp
  have h2: "checkValid ''<html>busy</html>'' = None" by code_simp
  have p1: "parseBody ''{\"ip\":\"198.51.100.7\"}'' = ''198.51.100.7''"
    using parse_step [of "''{\"ip\":\"198.51.100.7\"}''"] h1 by simp
  have p2: "parseBody ''<html>busy</html>'' = ''<html>busy</html>''"
    using parse_step [of "''<html>busy</html>''"] h2 by simp
  have f: "fetchExternalIP (always (respond 200 ''<html>busy</html>'')) ''http://ip.example'' 1 5 0 =
      (Inr (parseBody ''<html>busy</html>''), Suc 0)"
    using parse_step [of "''<html>busy</html>''" 1 5 "always (respond 200 ''<html>busy</html>'')"
        "''http://ip.example''" 0]
    by (simp add: always_def respond_def)
  from h1 h2 p1 p2 f show ?thesis by simp
qed

subsection \<open>Change detection\<close>

text \<open>
  Claim C6: from an empty cache, three checks whose fetches return \<open>A\<close>, \<open>A\<close> and \<open>B\<close>
  (both non-empty, \<open>A \<noteq> B\<close>) log \<^verbatim>\<open>Current external IP: A\<close>, then nothing, then
  \<^verbatim>\<open>IP changed: A -> B\<close>; the first two checks together log exactly one line.
\<close>

theorem change_detection:
  assumes "LastKnownIPLock config = Unlocked" and "LastKnownIP config = []"
    and "A \<noteq> []" and "B \<noteq> []" and "A \<noteq> B"
    and "fetchExternalIP net (IPEndpoint config) 1 (MaxRetries config) (requests w) = (Inr A, n1)"
    and "fetchExternalIP net (IPEndpoint config) 1 (MaxRetries config) n1 = (Inr A, n2)"
    and "fetchExternalIP net (IPEndpoint config) 1 (MaxRetries config) n2 = (Inr B, n3)"
  shows "\<exists>config1 w1 config2 w2 config3 w3.
           checkIP net config w = Some (config1, w1)
         \<and> logged w1 = logged w @ [''Current external IP: '' @ A]
         \<and> checkIP net config1 w1 = Some (config2, w2)
         \<and> logged w2 = logged w1
         \<and> checkIP net config2 w2 = Some (config3, w3)
         \<and> logged w3 = logged w2 @ [''IP changed: '' @ A @ '' -> '' @ B]"
proof -
  let ?config1 = "config\<lparr>LastKnownIP := A\<rparr>"
  let ?w1 = "logMessage (''Current external IP: '' @ A) (w\<lparr>requests := n1\<rparr>)"
  let ?w2 = "?w1\<lparr>requests := n2\<rparr>"
  let ?config3 = "?config1\<lparr>LastKnownIP := B\<rparr>"
  let ?w3 = "logMessage (''IP changed: '' @ A @ '' -> '' @ B) (?w2\<lparr>requests := n3\<rparr>)"
  have first: "checkIP net config w = Some (?config1, ?w1)"
    using checkIP_success [OF assms(6) assms(1)] assms(2,3) by simp
  have second: "checkIP net ?config1 ?w1 = Some (?config1, ?w2)"
    using checkIP_success [of net ?config1 ?w1 A n2] assms(1,7)
    by (simp add: logMessage_def)
  have third: "checkIP net ?config1 ?w2 = Some (?config3, ?w3)"
    using checkIP_success [of net ?config1 ?w2 B n3] assms(1,3,5,8)
    by (simp add: logMessage_def)
  have "logged ?w1 = logged w @ [''Current external IP: '' @ A]"
    and "logged ?w2 = logged ?w1"
    and "logged ?w3 = logged ?w2 @ [''IP changed: '' @ A @ '' -> '' @ B]"
    by (simp_all add: logMessage_def)
  with first second third show ?thesis by blast
qed

theorem change_detection_witness:
  "\<exists>config1 w1 config2 w2 config3 w3.
     checkIP (replies [respond 200 ''{\"ip\":\"192.168.0.1\"}'', respond 200 ''{\"ip\":\"192.168.0.1\"}'']
                (respond 200 ''{\"ip\":\"192.168.0.2\"}'')) default_config start = Some (config1, w1)
   \<and> logged w1 = logged start @ [''Current external IP: '' @ ''192.168.0.1'']
   \<and> checkIP (replies [respond 200 ''{\"ip\":\"192.168.0.1\"}'', respond 200 ''{\"ip\":\"192.168.0.1\"}'']
                (respond 200 ''{\"ip\":\"192.168.0.2\"}'')) config1 w1 = Some (config2, w2)
   \<and> logged w2 = logged w1
   \<and> checkIP (replies [respond 200 ''{\"ip\":\"192.168.0.1\"}'', respond 200 ''{\"ip\":\"192.168.0.1\"}'']
                (respond 200 ''{\"ip\":\"192.168.0.2\"}'')) config2 w2 = Some (config3, w3)
   \<and> logged w3 = logged w2 @ [''IP changed: '' @ ''192.168.0.1'' @ '' -> '' @ ''192.168.0.2'']"
proof -
  let ?net = "replies [respond 200 ''{\"ip\":\"192.168.0.1\"}'', respond 200 ''{\"ip\":\"192.168.0.1\"}'']
                (respond 200 ''{\"ip\":\"192.168.0.2\"}'')"
  have h1: "LastKnownIPLock default_config = Unlocked" and h2: "LastKnownIP default_config = []"
    by (simp_all add: default_config_def)
  have h3: "''192.168.0.1'' \<noteq> []" and h4: "''192.168.0.2'' \<noteq> []"
    and h5: "''192.168.0.1'' \<noteq> ''192.168.0.2''"
    by simp_all
  have h6: "fetchExternalIP ?net (IPEndpoint default_config) 1 (MaxRetries default_config)
      (requests start) = (Inr ''192.168.0.1'', 1)"
    by code_simp
  have h7: "fetchExternalIP ?net (IPEndpoint default_config) 1 (MaxRetries default_config) 1 =
      (Inr ''192.168.0.1'', 2)"
    by code_simp
  have h8: "fetchExternalIP ?net (IPEndpoint default_config) 1 (MaxRetries default_config) 2 =
      (Inr ''192.168.0.2'', 3)"
    by code_simp
  show ?thesis
    by (rule change_detection [OF h1 h2 h3 h4 h5 h6 h7 h8])
qed

subsection \<open>The retry policy\<close>

text \<open>
  Claim C7: an attempt within the budget is successful exactly when there is no
  transport error and the status code \<open>s\<close> satisfies \<open>200 \<le> s < 300\<close>: then
  \<^verbatim>\<open>fetchExternalIP\<close> returns with that response, after one request. Any other outcome,
  transport error or status code alike, is retried while \<open>attempt < maxAttempts\<close>, and
  at \<open>attempt = maxAttempts\<close> gives the exhausted-retries error; for a response it is
  \<^verbatim>\<open>failed after N attempts: HTTP status S\<close> with the attempt count and the status code
  received.
\<close>

theorem retry_policy:
  "(attempt \<le> maxAttempts \<and> successful (net endpoint n) \<longrightarrow>
      (\<exists>resp. net endpoint n = GetResponse resp
         \<and> 200 \<le> StatusCode resp \<and> StatusCode resp < 300
         \<and> fetchExternalIP net endpoint attempt maxAttempts n =
             ((case Body resp of
                 ReadError err \<Rightarrow> Inl (ErrRead err)
               | ReadOK body \<Rightarrow> Inr (parseBody body)), Suc n)))
   \<and> (attempt < maxAttempts \<and> \<not> successful (net endpoint n) \<longrightarrow>
        fetchExternalIP net endpoint attempt maxAttempts n =
          fetchExternalIP net endpoint (attempt + 1) maxAttempts (Suc n))
   \<and> (attempt = maxAttempts \<and> \<not> successful (net endpoint n) \<longrightarrow>
        fetchExternalIP net endpoint attempt maxAttempts n =
          (Inl (exhausted maxAttempts (net endpoint n)), Suc n))
   \<and> (\<forall>resp. attempt = maxAttempts \<and> net endpoint n = GetResponse resp
          \<and> \<not> (200 \<le> StatusCode resp \<and> StatusCode resp < 300) \<longrightarrow>
        fetchExternalIP net endpoint attempt maxAttempts n =
          (Inl (ErrStatus maxAttempts (StatusCode resp)), Suc n)
      \<and> Error (ErrStatus maxAttempts (StatusCode resp)) =
          ''failed after '' @ fmt_d maxAttempts @ '' attempts: HTTP status ''
            @ fmt_d (StatusCode resp))
   \<and> (\<forall>resp. 1 \<le> maxAttempts \<and> (\<forall>i<nat maxAttempts. \<not> successful (net endpoint (n + i)))
          \<and> net endpoint (n + nat maxAttempts - 1) = GetResponse resp \<longrightarrow>
        fetchExternalIP net endpoint 1 maxAttempts n =
          (Inl (ErrStatus maxAttempts (StatusCode resp)), n + nat maxAttempts))"
proof (intro conjI allI impI; (elim conjE)?)
  assume le: "attempt \<le> maxAttempts" and ok: "successful (net endpoint n)"
  from ok obtain resp where resp: "net endpoint n = GetResponse resp"
    "200 \<le> StatusCode resp" "StatusCode resp < 300"
    by (auto simp: successful_def split: get_result.splits)
  from fetch_success [where net = net and ep = endpoint, OF le resp] resp
  show "\<exists>resp. net endpoint n = GetResponse resp
         \<and> 200 \<le> StatusCode resp \<and> StatusCode resp < 300
         \<and> fetchExternalIP net endpoint attempt maxAttempts n =
             ((case Body resp of
                 ReadError err \<Rightarrow> Inl (ErrRead err)
               | ReadOK body \<Rightarrow> Inr (parseBody body)), Suc n)"
    by blast
next
  assume "attempt < maxAttempts" and "\<not> successful (net endpoint n)"
  then show "fetchExternalIP net endpoint attempt maxAttempts n =
      fetchExternalIP net endpoint (attempt + 1) maxAttempts (Suc n)"
    by (rule fetch_retry)
next
  assume "attempt = maxAttempts" and "\<not> successful (net endpoint n)"
  then show "fetchExternalIP net endpoint attempt maxAttempts n =
      (Inl (exhausted maxAttempts (net endpoint n)), Suc n)"
    using fetch_last [where net = net and ep = endpoint and n = n and maxAttempts = maxAttempts]
    by simp
next
  fix resp
  assume eq: "attempt = maxAttempts" and resp: "net endpoint n = GetResponse resp"
    and bad: "\<not> (200 \<le> StatusCode resp \<and> StatusCode resp < 300)"
  from resp bad have "\<not> successful (net endpoint n)" by (simp add: successful_def)
  from fetch_last [where net = net and ep = endpoint and n = n and maxAttempts = maxAttempts, OF this]
  show "fetchExternalIP net endpoint attempt maxAttempts n =
      (Inl (ErrStatus maxAttempts (StatusCode resp)), Suc n)"
    using eq resp by (simp add: exhausted_def)
next
  fix resp
  show "Error (ErrStatus maxAttempts (StatusCode resp)) =
      ''failed after '' @ fmt_d maxAttempts @ '' attempts: HTTP status '' @ fmt_d (StatusCode resp)"
    by simp
next
  fix resp
  assume "1 \<le> maxAttempts" and "\<forall>i<nat maxAttempts. \<not> successful (net endpoint (n + i))"
    and "net endpoint (n + nat maxAttempts - 1) = GetResponse resp"
  then show "fetchExternalIP net endpoint 1 maxAttempts n =
      (Inl (ErrStatus maxAttempts (StatusCode resp)), n + nat maxAttempts)"
    by (rule fetch_all_fail_status)
qed

theorem retry_policy_witness:
  "fetchExternalIP (replies [GetError ''connection refused''] (respond 200 ''198.51.100.7''))
      ''http://ip.example'' 1 2 0 =
    fetchExternalIP (replies [GetError ''connection refused''] (respond 200 ''198.51.100.7''))
      ''http://ip.example'' 2 2 1
   \<and> fetchExternalIP (replies [respond 503 []] (respond 200 ''198.51.100.7''))
      ''http://ip.example'' 1 2 0 =
    fetchExternalIP (replies [respond 503 []] (respond 200 ''198.51.100.7''))
      ''http://ip.example'' 2 2 1
   \<and> fetchExternalIP (always (respond 503 [])) ''http://ip.example'' 2 2 1 =
        (Inl (ErrStatus 2 503), 2)
   \<and> Error (ErrStatus 2 503) = ''failed after 2 attempts: HTTP status 503''"
proof -
  have a: "\<not> successful (replies [GetError ''connection refused''] (respond 200 ''198.51.100.7'')
      ''http://ip.example'' 0)"
    and b: "\<not> successful (replies [respond 503 []] (respond 200 ''198.51.100.7'')
      ''http://ip.example'' 0)"
    by (simp_all add: replies_def respond_def successful_def)
  have c: "always (respond 503 []) ''http://ip.example'' 1 =
      GetResponse \<lparr>StatusCode = 503, Body = ReadOK []\<rparr>"
    by (simp add: always_def respond_def)
  have d: "fmt_d 2 = ''2''" "fmt_d 503 = ''503''" by code_simp+
  from retry_policy [of 1 2 "replies [GetError ''connection refused''] (respond 200 ''198.51.100.7'')"
      "''http://ip.example''" 0] a
  have 1: "fetchExternalIP (replies [GetError ''connection refused''] (respond 200 ''198.51.100.7''))
      ''http://ip.example'' 1 2 0 =
    fetchExternalIP (replies [GetError ''connection refused''] (respond 200 ''198.51.100.7''))
      ''http://ip.example'' 2 2 1"
    by simp
  from retry_policy [of 1 2 "replies [respond 503 []] (respond 200 ''198.51.100.7'')"
      "''http://ip.example''" 0] b
  have 2: "fetchExternalIP (replies [respond 503 []] (respond 200 ''198.51.100.7''))
      ''http://ip.example'' 1 2 0 =
    fetchExternalIP (replies [respond 503 []] (respond 200 ''198.51.100.7''))
      ''http://ip.example'' 2 2 1"
    by simp
  from retry_policy [of 2 2 "always (respond 503 [])" "''http://ip.example''" 1] c
  have 3: "fetchExternalIP (always (respond 503 [])) ''http://ip.example'' 2 2 1 =
        (Inl (ErrStatus 2 503), 2)
      \<and> Error (ErrStatus 2 503) = ''failed after 2 attempts: HTTP status 503''"
    by (simp add: d)
  from 1 2 3 show ?thesis by simp
qed

subsection \<open>The frame of one check\<close>

text \<open>
  Claim C8: every run of \<^verbatim>\<open>checkIP\<close> that returns, whether its fetch succeeded or
  failed, leaves \<open>Interval\<close>, \<open>LogFile\<close>, \<open>IPEndpoint\<close>, \<open>QuietMode\<close> and \<open>MaxRetries\<close>
  unchanged: the resulting \<^verbatim>\<open>Config\<close> differs from the initial one in \<open>LastKnownIP\<close>
  at most. With the mutex free, \<^verbatim>\<open>checkIP\<close> returns.
\<close>

theorem checkIP_frame:
  "(\<forall>config' w'. checkIP net config w = Some (config', w') \<longrightarrow>
      Interval config' = Interval config \<and> LogFile config' = LogFile config
    \<and> IPEndpoint config' = IPEndpoint config \<and> QuietMode config' = QuietMode config
    \<and> MaxRetries config' = MaxRetries config
    \<and> config' = config\<lparr>LastKnownIP := LastKnownIP config'\<rparr>)
   \<and> (LastKnownIPLock config = Unlocked \<longrightarrow> checkIP net config w \<noteq> None)"
proof -
  obtain r n where
    f: "fetchExternalIP net (IPEndpoint config) 1 (MaxRetries config) (requests w) = (r, n)"
    by (cases "fetchExternalIP net (IPEndpoint config) 1 (MaxRetries config) (requests w)")
  have "checkIP net config w \<noteq> None" if "LastKnownIPLock config = Unlocked"
    using checkIP_returns [OF f] that by simp
  moreover have "Interval config' = Interval config \<and> LogFile config' = LogFile config
      \<and> IPEndpoint config' = IPEndpoint config \<and> QuietMode config' = QuietMode config
      \<and> MaxRetries config' = MaxRetries config
      \<and> config' = config\<lparr>LastKnownIP := LastKnownIP config'\<rparr>"
    if "checkIP net config w = Some (config', w')" for config' w'
  proof -
    from checkIP_result [OF that f] obtain ip where "config' = config\<lparr>LastKnownIP := ip\<rparr>"
      by blast
    then show ?thesis by simp
  qed
  ultimately show ?thesis by blast
qed

theorem checkIP_frame_witness:
  "checkIP (always (respond 200 ''198.51.100.7'')) default_config start =
     Some (default_config\<lparr>LastKnownIP := ''198.51.100.7''\<rparr>,
           \<lparr>requests = 1, logged = [''Current external IP: 198.51.100.7'']\<rparr>)
   \<and> MaxRetries (default_config\<lparr>LastKnownIP := ''198.51.100.7''\<rparr>) = MaxRetries default_config
   \<and> IPEndpoint (default_config\<lparr>LastKnownIP := ''198.51.100.7''\<rparr>) = IPEndpoint default_config"
proof -
  have h: "checkIP (always (respond 200 ''198.51.100.7'')) default_config start =
     Some (default_config\<lparr>LastKnownIP := ''198.51.100.7''\<rparr>,
           \<lparr>requests = 1, logged = [''Current external IP: 198.51.100.7'']\<rparr>)"
    by code_simp
  from checkIP_frame [of "always (respond 200 ''198.51.100.7'')" default_config start] h
  show ?thesis by blast
qed

subsection \<open>The guard on \<^verbatim>\<open>attempt\<close>\<close>

text \<open>
  Claim C9: entered with \<open>attempt = 1\<close> and \<open>maxAttempts = N \<ge> 1\<close>, every call of
  \<^verbatim>\<open>fetchExternalIP\<close>, the first and each recursive one, has \<open>1 \<le> attempt \<le> N\<close>; so
  none takes the guard branch: each issues a request, and the error without a cause,
  \<^verbatim>\<open>failed to make request after N attempts\<close>, is never returned.
\<close>

theorem guard_unreachable:
  assumes "1 \<le> N"
  shows "list_all (\<lambda>a. 1 \<le> a \<and> a \<le> N) (attempts_entered net endpoint 1 N n)
       \<and> fst (fetchExternalIP net endpoint 1 N n) \<noteq> Inl (ErrNoRequest m)
       \<and> snd (fetchExternalIP net endpoint 1 N n) =
           n + length (attempts_entered net endpoint 1 N n)"
proof -
  have bounds: "\<forall>a \<in> set (attempts_entered net endpoint 1 N n). 1 \<le> a \<and> a \<le> N"
    using assms by (rule attempts_entered_bounds)
  then have "filter (\<lambda>a. a \<le> N) (attempts_entered net endpoint 1 N n) =
      attempts_entered net endpoint 1 N n"
    by (simp add: filter_id_conv)
  then have "snd (fetchExternalIP net endpoint 1 N n) =
      n + length (attempts_entered net endpoint 1 N n)"
    using requests_attempts_entered [of net endpoint 1 N n] by simp
  moreover have "fst (fetchExternalIP net endpoint 1 N n) \<noteq> Inl (ErrNoRequest m)"
    using assms by (rule fetch_never_ErrNoRequest)
  ultimately show ?thesis using bounds by (simp add: list_all_iff)
qed

theorem guard_unreachable_witness:
  "(1::int) \<le> 3
   \<and> attempts_entered (always (GetError ''dial tcp: lookup failed'')) ''http://ip.example'' 1 3 0 = [1, 2, 3]
   \<and> list_all (\<lambda>a. 1 \<le> a \<and> a \<le> 3)
        (attempts_entered (always (GetError ''dial tcp: lookup failed'')) ''http://ip.example'' 1 3 0)
   \<and> fst (fetchExternalIP (always (GetError ''dial tcp: lookup failed'')) ''http://ip.example'' 1 3 0)
        \<noteq> Inl (ErrNoRequest 3)
   \<and> snd (fetchExternalIP (always (GetError ''dial tcp: lookup failed'')) ''http://ip.example'' 1 3 0) = 3"
proof -
  have h: "(1::int) \<le> 3" by simp
  have t: "attempts_entered (always (GetError ''dial tcp: lookup failed'')) ''http://ip.example'' 1 3 0 =
      [1, 2, 3]"
    by code_simp
  from guard_unreachable [OF h, of "always (GetError ''dial tcp: lookup failed'')"
      "''http://ip.example''" 0 3] t
  show ?thesis by simp
qed

subsection \<open>No validation of the address\<close>

text \<open>
  Claim C10: for a 2xx response with an empty body, \<^verbatim>\<open>fetchExternalIP\<close> returns the
  empty string as the address, with no error: \<^verbatim>\<open>json.Unmarshal\<close> fails on the empty
  input and the body is returned verbatim. Whatever the body of a 2xx response is,
  once read it is never rejected.
\<close>

theorem empty_body:
  assumes "attempt \<le> maxAttempts" and "net endpoint n = GetResponse resp"
    and "200 \<le> StatusCode resp" and "StatusCode resp < 300"
  shows "(Body resp = ReadOK [] \<longrightarrow>
            fetchExternalIP net endpoint attempt maxAttempts n = (Inr [], Suc n))
       \<and> json_Unmarshal [] \<lparr>IP = []\<rparr> = (Some SyntaxError, \<lparr>IP = []\<rparr>)
       \<and> (\<forall>body. Body resp = ReadOK body \<longrightarrow>
            (\<exists>ip. fetchExternalIP net endpoint attempt maxAttempts n = (Inr ip, Suc n)))"
proof -
  have invalid: "checkValid [] = None" by code_simp
  then have empty: "parseBody [] = []" by (rule parseBody_not_json)
  have "json_Unmarshal [] \<lparr>IP = []\<rparr> = (Some SyntaxError, \<lparr>IP = []\<rparr>)"
    using invalid by (simp add: json_Unmarshal_def)
  moreover have "fetchExternalIP net endpoint attempt maxAttempts n = (Inr (parseBody body), Suc n)"
    if "Body resp = ReadOK body" for body
    using assms that by (rule fetch_readable)
  ultimately show ?thesis using empty by fastforce
qed

theorem empty_body_witness:
  "fetchExternalIP (always (respond 204 [])) ''http://ip.example'' 1 5 0 = (Inr [], 1)
   \<and> json_Unmarshal [] \<lparr>IP = []\<rparr> = (Some SyntaxError, \<lparr>IP = []\<rparr>)"
proof -
  let ?resp = "\<lparr>StatusCode = 204, Body = ReadOK []\<rparr>"
  have h1: "(1::int) \<le> 5" by simp
  have h2: "always (respond 204 []) ''http://ip.example'' 0 = GetResponse ?resp"
    by (simp add: always_def respond_def)
  have h3: "200 \<le> StatusCode ?resp" and h4: "StatusCode ?resp < 300" by simp_all
  from empty_body [where net = "always (respond 204 [])" and endpoint = "''http://ip.example''",
      OF h1 h2 h3 h4]
  show ?thesis by simp
qed

end
